theory Spec2Isabelle
  imports Complex_Main "HOL-Library.Sublist"
begin

section \<open>JavaScript numbers\<close>

text \<open>
  The similarity code of \<^verbatim>\<open>src/index.js\<close> works on JavaScript numbers. A number is
  modelled as an exact real extended with the three special values of IEEE 754 that
  the code can produce: \<open>NaN\<close>, \<open>+Infinity\<close> and \<open>-Infinity\<close>. Finite arithmetic is
  exact (rounding, overflow and underflow of float64 are outside the model), the
  special values follow IEEE 754. A score of the model is therefore the score of the
  code only where float64 computes without rounding; the statements below about
  scores are about zero vectors, about missing components and about the order of
  scores, none of which depends on rounding. The two zeros are one value \<open>Num 0\<close>; the only
  place where their sign could matter is a division by zero, and every divisor of
  the program is a product of square roots, hence \<open>+0\<close> when it is zero.
\<close>

datatype jsnum = Num real | NaN | PosInf | NegInf

fun js_add :: "jsnum \<Rightarrow> jsnum \<Rightarrow> jsnum" where
  "js_add NaN _ = NaN"
| "js_add _ NaN = NaN"
| "js_add (Num a) (Num b) = Num (a + b)"
| "js_add PosInf NegInf = NaN"
| "js_add NegInf PosInf = NaN"
| "js_add PosInf _ = PosInf"
| "js_add _ PosInf = PosInf"
| "js_add NegInf _ = NegInf"
| "js_add _ NegInf = NegInf"

fun js_neg :: "jsnum \<Rightarrow> jsnum" where
  "js_neg (Num a) = Num (- a)"
| "js_neg NaN = NaN"
| "js_neg PosInf = NegInf"
| "js_neg NegInf = PosInf"

definition js_sub :: "jsnum \<Rightarrow> jsnum \<Rightarrow> jsnum" where
  "js_sub x y = js_add x (js_neg y)"

text \<open>The infinity of the sign of a non-zero real.\<close>

definition inf_of_sign :: "real \<Rightarrow> jsnum" where
  "inf_of_sign s = (if s > 0 then PosInf else NegInf)"

fun js_mul :: "jsnum \<Rightarrow> jsnum \<Rightarrow> jsnum" where
  "js_mul NaN _ = NaN"
| "js_mul _ NaN = NaN"
| "js_mul (Num a) (Num b) = Num (a * b)"
| "js_mul (Num a) PosInf = (if a = 0 then NaN else inf_of_sign a)"
| "js_mul (Num a) NegInf = (if a = 0 then NaN else inf_of_sign (- a))"
| "js_mul PosInf (Num b) = (if b = 0 then NaN else inf_of_sign b)"
| "js_mul NegInf (Num b) = (if b = 0 then NaN else inf_of_sign (- b))"
| "js_mul PosInf PosInf = PosInf"
| "js_mul PosInf NegInf = NegInf"
| "js_mul NegInf PosInf = NegInf"
| "js_mul NegInf NegInf = PosInf"

text \<open>
  Division. A zero divisor is \<open>+0\<close> (see above): \<open>0 / 0\<close> is \<open>NaN\<close>, a non-zero
  number over zero is the infinity of its sign.
\<close>

fun js_div :: "jsnum \<Rightarrow> jsnum \<Rightarrow> jsnum" where
  "js_div NaN _ = NaN"
| "js_div _ NaN = NaN"
| "js_div (Num a) (Num b) =
     (if b = 0 then (if a = 0 then NaN else inf_of_sign a) else Num (a / b))"
| "js_div (Num a) PosInf = Num 0"
| "js_div (Num a) NegInf = Num 0"
| "js_div PosInf (Num b) = (if b \<ge> 0 then PosInf else NegInf)"
| "js_div NegInf (Num b) = (if b \<ge> 0 then NegInf else PosInf)"
| "js_div PosInf PosInf = NaN"
| "js_div PosInf NegInf = NaN"
| "js_div NegInf PosInf = NaN"
| "js_div NegInf NegInf = NaN"

text \<open>\<^verbatim>\<open>Math.sqrt\<close>.\<close>

fun js_sqrt :: "jsnum \<Rightarrow> jsnum" where
  "js_sqrt (Num a) = (if a < 0 then NaN else Num (sqrt a))"
| "js_sqrt NaN = NaN"
| "js_sqrt PosInf = PosInf"
| "js_sqrt NegInf = NaN"

text \<open>The comparisons \<^verbatim>\<open>x > y\<close> and \<^verbatim>\<open>x >= y\<close>: false as soon as one side is \<open>NaN\<close>.\<close>

fun js_gt :: "jsnum \<Rightarrow> jsnum \<Rightarrow> bool" where
  "js_gt NaN _ = False"
| "js_gt _ NaN = False"
| "js_gt (Num a) (Num b) = (a > b)"
| "js_gt PosInf PosInf = False"
| "js_gt PosInf _ = True"
| "js_gt _ PosInf = False"
| "js_gt NegInf _ = False"
| "js_gt _ NegInf = True"

fun js_ge :: "jsnum \<Rightarrow> jsnum \<Rightarrow> bool" where
  "js_ge NaN _ = False"
| "js_ge _ NaN = False"
| "js_ge x y = (x = y \<or> js_gt x y)"

text \<open>
  \<^verbatim>\<open>vecB[i]\<close> read as a number: an index past the end gives \<^verbatim>\<open>undefined\<close>, which
  arithmetic converts to \<open>NaN\<close>.
\<close>

definition js_index :: "jsnum list \<Rightarrow> nat \<Rightarrow> jsnum" where
  "js_index v i = (if i < length v then v ! i else NaN)"

section \<open>Cosine similarity\<close>

text \<open>
  \<^verbatim>\<open>vecA.reduce((sum, val, i) => sum + val * vecB[i], 0)\<close>: the accumulator
  \<open>acc\<close> (the callback's \<^verbatim>\<open>sum\<close>) and the running index are explicit.
\<close>

fun reduce_dot :: "jsnum list \<Rightarrow> jsnum \<Rightarrow> nat \<Rightarrow> jsnum list \<Rightarrow> jsnum" where
  "reduce_dot vecB acc i [] = acc"
| "reduce_dot vecB acc i (val # rest) =
     reduce_dot vecB (js_add acc (js_mul val (js_index vecB i))) (Suc i) rest"

text \<open>\<^verbatim>\<open>vec.reduce((sum, val) => sum + val * val, 0)\<close>.\<close>

fun reduce_squares :: "jsnum \<Rightarrow> jsnum list \<Rightarrow> jsnum" where
  "reduce_squares acc [] = acc"
| "reduce_squares acc (val # rest) = reduce_squares (js_add acc (js_mul val val)) rest"

text \<open>
  \<^verbatim>\<open>Math.sqrt\<close> of the sum of squares. The sum is exact here, so only a zero vector has
  magnitude zero; in float64 the squares of very small components underflow, and a
  vector that is not zero can have the computed magnitude zero. No statement below
  takes a zero magnitude as its hypothesis.
\<close>

definition magnitude :: "jsnum list \<Rightarrow> jsnum" where
  "magnitude vec = js_sqrt (reduce_squares (Num 0) vec)"

definition cosineSimilarity :: "jsnum list \<Rightarrow> jsnum list \<Rightarrow> jsnum" where
  "cosineSimilarity vecA vecB =
     (let dot = reduce_dot vecB (Num 0) 0 vecA;
          magA = magnitude vecA;
          magB = magnitude vecB
      in js_div dot (js_mul magA magB))"

section \<open>Data model\<close>

text \<open>
  A rejected promise or a thrown exception is a value: the \<^verbatim>\<open>TypeError\<close> that
  JavaScript itself raises, or the failure of an external call with its message.
  An asynchronous function returns \<open>Inl\<close> of the error when it rejects and \<open>Inr\<close> of
  its value when it resolves.
\<close>

datatype js_error = TypeError | Failure string

type_synonym bytes = "nat list"

text \<open>A JSON object with string values, as the list of its own properties in enumeration order.\<close>

type_synonym mapping = "(string \<times> string) list"

text \<open>
  The parsed response of the analysis service (\<^verbatim>\<open>result\<close>). A field that is absent
  from the response reads as \<^verbatim>\<open>undefined\<close>, here \<open>None\<close>. The fields
  \<^verbatim>\<open>language-iso\<close>, \<^verbatim>\<open>ddex moods\<close> and \<^verbatim>\<open>ddex themes\<close> are written with an underscore.
  The mappings hold strings, as the service documents them. A body that is a number,
  a string or an array has none of the fields: every field is \<open>None\<close>. Only the body
  \<^verbatim>\<open>null\<close> makes the read of \<^verbatim>\<open>summary\<close> throw (line 90, before any effect); it is the
  outcome \<open>Inl TypeError\<close> of the call.
\<close>

record analysis_result =
  result_summary :: "string option"
  result_language :: "string option"
  result_language_iso :: "string option"
  result_explicit :: "bool option"
  result_keywords :: "mapping option"
  result_ddex_moods :: "mapping option"
  result_ddex_themes :: "mapping option"
  result_flags :: "string option"

text \<open>
  A document of the collection \<^verbatim>\<open>songs\<close> (\<^verbatim>\<open>songData\<close>). \<open>doc_id\<close> is the field
  \<^verbatim>\<open>_id\<close>: absent from the object the program assembles, set by \<^verbatim>\<open>insertOne\<close>;
  \<open>song_keywords\<close> is the field \<^verbatim>\<open>keywords\<close>.
\<close>

record song =
  doc_id :: "nat option"
  songUrl :: string
  audioFileId :: nat
  filename :: string
  language :: "string option"
  language_iso :: "string option"
  summary :: "string option"
  explicit :: "bool option"
  song_keywords :: "string list"
  ddex_moods :: "string list"
  ddex_themes :: "string list"
  flags :: "string option"
  embedding :: "jsnum list"
  created_at :: nat

text \<open>An element of \<^verbatim>\<open>similarities\<close>.\<close>

record scored =
  songId :: "nat option"
  similarity :: jsnum
  songData :: song

text \<open>What the program writes to the console.\<close>

datatype console_line =
    Log_song_exists
  | Log_inserted nat
  | Error_in_fetchLyricsAndStore js_error
  | Log_top5_header
  | Log_top_song "string option" jsnum

text \<open>
  The state the program acts on: the collection \<^verbatim>\<open>songs\<close> in insertion order, the
  GridFS bucket \<^verbatim>\<open>songs_audio\<close> (identifier, file name, content), the shared storage
  connection with the number of times it was released, and the console.
\<close>

record store =
  songs :: "song list"
  songs_audio :: "(nat \<times> string \<times> bytes) list"
  conn_open :: bool
  releases :: nat
  console :: "console_line list"

text \<open>
  The outcome of every external call during one run of an operation: the two calls of
  \<^verbatim>\<open>connectToDatabase\<close> (at the start of the operation, and inside \<^verbatim>\<open>songExists\<close>), the
  queries \<^verbatim>\<open>findOne\<close> and \<^verbatim>\<open>find\<close>, the analysis service (by the song's locator), the
  embedding model (by the text), the download of the payload (by the locator), the
  GridFS upload and \<^verbatim>\<open>insertOne\<close> (with the identifier each generates),
  \<^verbatim>\<open>closeConnection\<close>, and the clock.
\<close>

record world =
  connect_res :: "js_error option"
  exists_connect_res :: "js_error option"
  findOne_res :: "js_error option"
  find_res :: "js_error option"
  fetch_json :: "string \<Rightarrow> js_error + analysis_result"
  embedContent :: "string \<Rightarrow> js_error + jsnum list"
  axios_get :: "string \<Rightarrow> js_error + bytes"
  upload_res :: "js_error + nat"
  insert_res :: "js_error + nat"
  close_res :: "js_error option"
  now :: nat

section \<open>The storage connection\<close>

text \<open>
  Modelled from the spec: \<^verbatim>\<open>db.js\<close>, which exports \<^verbatim>\<open>connectToDatabase\<close> and
  \<^verbatim>\<open>closeConnection\<close>, is not among the sources. The spec describes one shared storage
  connection, acquired at the start of an operation and released at its end. A call
  that fails leaves the connection as it was.
\<close>

definition connectToDatabase :: "js_error option \<Rightarrow> store \<Rightarrow> (js_error + unit) \<times> store" where
  "connectToDatabase res st =
     (case res of
        Some e \<Rightarrow> (Inl e, st)
      | None \<Rightarrow> (Inr (), st\<lparr>conn_open := True\<rparr>))"

definition closeConnection :: "js_error option \<Rightarrow> store \<Rightarrow> (js_error + unit) \<times> store" where
  "closeConnection res st =
     (case res of
        Some e \<Rightarrow> (Inl e, st)
      | None \<Rightarrow> (Inr (), st\<lparr>conn_open := False, releases := Suc (releases st)\<rparr>))"

section \<open>Helpers of the ingestion\<close>

text \<open>\<^verbatim>\<open>songExists\<close>: \<^verbatim>\<open>findOne({ songUrl: url })\<close> is the first document with that locator.\<close>

definition songExists :: "string \<Rightarrow> world \<Rightarrow> store \<Rightarrow> (js_error + bool) \<times> store" where
  "songExists url env st =
     (case connectToDatabase (exists_connect_res env) st of
        (Inl e, st1) \<Rightarrow> (Inl e, st1)
      | (Inr db, st1) \<Rightarrow>
          (case findOne_res env of
             Some e \<Rightarrow> (Inl e, st1)
           | None \<Rightarrow> (Inr (find (\<lambda>s. songUrl s = url) (songs st1) \<noteq> None), st1)))"

definition getSongBuffer :: "world \<Rightarrow> string \<Rightarrow> js_error + bytes" where
  "getSongBuffer env url = axios_get env url"

text \<open>
  \<^verbatim>\<open>uploadToGridFS\<close>: the promise resolves with the identifier of the upload stream on
  \<^verbatim>\<open>finish\<close>, and rejects on \<^verbatim>\<open>error\<close>.
\<close>

definition uploadToGridFS :: "world \<Rightarrow> bytes \<Rightarrow> string \<Rightarrow> store \<Rightarrow> (js_error + nat) \<times> store" where
  "uploadToGridFS env buffer name st =
     (case upload_res env of
        Inl e \<Rightarrow> (Inl e, st)
      | Inr fid \<Rightarrow> (Inr fid, st\<lparr>songs_audio := songs_audio st @ [(fid, name, buffer)]\<rparr>))"

definition insertOne :: "world \<Rightarrow> song \<Rightarrow> store \<Rightarrow> (js_error + nat) \<times> store" where
  "insertOne env doc st =
     (case insert_res env of
        Inl e \<Rightarrow> (Inl e, st)
      | Inr insertedId \<Rightarrow>
          (Inr insertedId, st\<lparr>songs := songs st @ [doc\<lparr>doc_id := Some insertedId\<rparr>]\<rparr>))"

text \<open>\<^verbatim>\<open>path.basename\<close> (POSIX): trailing slashes are dropped, then the last segment is taken.\<close>

definition basename :: "string \<Rightarrow> string" where
  "basename p =
     (let q = dropWhile (\<lambda>c. c = CHR ''/'') (rev p)
      in rev (takeWhile (\<lambda>c. c \<noteq> CHR ''/'') q))"

text \<open>\<^verbatim>\<open>x || {}\<close> on an optional object: an object is truthy, \<^verbatim>\<open>undefined\<close> is not.\<close>

definition or_empty_object :: "mapping option \<Rightarrow> mapping" where
  "or_empty_object x = (case x of None \<Rightarrow> [] | Some m \<Rightarrow> m)"

text \<open>\<^verbatim>\<open>Object.values\<close> of an object, and of a value that may be \<^verbatim>\<open>undefined\<close>.\<close>

definition values_of :: "mapping \<Rightarrow> string list" where
  "values_of m = map snd m"

definition Object_values :: "mapping option \<Rightarrow> js_error + string list" where
  "Object_values x = (case x of None \<Rightarrow> Inl TypeError | Some m \<Rightarrow> Inr (values_of m))"

text \<open>
  \<^verbatim>\<open>Array.prototype.join\<close>: the loop of the language definition. The separator goes
  before every element but the first; an element that is \<^verbatim>\<open>undefined\<close> adds the empty
  string.
\<close>

fun join_loop :: "string \<Rightarrow> string \<Rightarrow> nat \<Rightarrow> string option list \<Rightarrow> string" where
  "join_loop sep R k [] = R"
| "join_loop sep R k (element # rest) =
     join_loop sep
       ((if k > 0 then R @ sep else R) @ (case element of None \<Rightarrow> [] | Some s \<Rightarrow> s))
       (Suc k) rest"

definition js_join :: "string \<Rightarrow> string option list \<Rightarrow> string" where
  "js_join sep elements = join_loop sep [] 0 elements"

text \<open>Lines 89 to 94: the text that is sent to the embedding model.\<close>

definition combinedText :: "analysis_result \<Rightarrow> string" where
  "combinedText result =
     js_join '' ''
       ([result_summary result]
        @ map Some (values_of (or_empty_object (result_keywords result)))
        @ map Some (values_of (or_empty_object (result_ddex_moods result)))
        @ map Some (values_of (or_empty_object (result_ddex_themes result))))"

text \<open>
  Lines 104 to 118: the object literal \<^verbatim>\<open>songData\<close>. Its properties are evaluated in
  order; \<^verbatim>\<open>Object.values\<close> of an absent mapping throws.
\<close>

definition assemble_songData ::
  "string \<Rightarrow> nat \<Rightarrow> string \<Rightarrow> analysis_result \<Rightarrow> jsnum list \<Rightarrow> nat \<Rightarrow> js_error + song" where
  "assemble_songData url gridFSId fileName result vec date =
     (case Object_values (result_keywords result) of
        Inl e \<Rightarrow> Inl e
      | Inr kws \<Rightarrow>
          (case Object_values (result_ddex_moods result) of
             Inl e \<Rightarrow> Inl e
           | Inr moods \<Rightarrow>
               (case Object_values (result_ddex_themes result) of
                  Inl e \<Rightarrow> Inl e
                | Inr themes \<Rightarrow>
                    Inr \<lparr>doc_id = None, songUrl = url, audioFileId = gridFSId,
                         filename = fileName, language = result_language result,
                         language_iso = result_language_iso result,
                         summary = result_summary result,
                         explicit = result_explicit result,
                         song_keywords = kws, ddex_moods = moods, ddex_themes = themes,
                         flags = result_flags result, embedding = vec,
                         created_at = date\<rparr>)))"

section \<open>Ingestion\<close>

text \<open>
  The body of the \<^verbatim>\<open>try\<close> block of \<^verbatim>\<open>fetchLyricsAndStore\<close> (lines 80 to 122). The
  source reads the locator from the module constant \<^verbatim>\<open>songUrl\<close>; here it is the
  parameter \<open>url\<close>. Every \<^verbatim>\<open>await\<close> that rejects and every exception leaves the block
  at once with \<open>Inl\<close>.
\<close>

definition ingest_try :: "string \<Rightarrow> world \<Rightarrow> store \<Rightarrow> (js_error + unit) \<times> store" where
  "ingest_try url env st =
     (case songExists url env st of
        (Inl e, st1) \<Rightarrow> (Inl e, st1)
      | (Inr found, st1) \<Rightarrow>
          if found then (Inr (), st1\<lparr>console := console st1 @ [Log_song_exists]\<rparr>)
          else
            (case fetch_json env url of
               Inl e \<Rightarrow> (Inl e, st1)
             | Inr result \<Rightarrow>
                 (case embedContent env (combinedText result) of
                    Inl e \<Rightarrow> (Inl e, st1)
                  | Inr vec \<Rightarrow>
                      (case getSongBuffer env url of
                         Inl e \<Rightarrow> (Inl e, st1)
                       | Inr songBuffer \<Rightarrow>
                           (case uploadToGridFS env songBuffer (basename url) st1 of
                              (Inl e, st2) \<Rightarrow> (Inl e, st2)
                            | (Inr gridFSId, st2) \<Rightarrow>
                                (case assemble_songData url gridFSId (basename url)
                                        result vec (now env) of
                                   Inl e \<Rightarrow> (Inl e, st2)
                                 | Inr doc \<Rightarrow>
                                     (case insertOne env doc st2 of
                                        (Inl e, st3) \<Rightarrow> (Inl e, st3)
                                      | (Inr insertedId, st3) \<Rightarrow>
                                          (Inr (),
                                           st3\<lparr>console :=
                                             console st3 @ [Log_inserted insertedId]\<rparr>))))))))"

text \<open>
  \<^verbatim>\<open>fetchLyricsAndStore\<close>. The connection is acquired before the \<^verbatim>\<open>try\<close> (line 78): a
  failure there rejects the call. The \<^verbatim>\<open>catch\<close> clause logs the error and swallows it;
  the \<^verbatim>\<open>finally\<close> clause awaits \<^verbatim>\<open>closeConnection\<close>, whose failure rejects the call.
\<close>

definition fetchLyricsAndStore :: "string \<Rightarrow> world \<Rightarrow> store \<Rightarrow> (js_error + unit) \<times> store" where
  "fetchLyricsAndStore url env st =
     (case connectToDatabase (connect_res env) st of
        (Inl e, st0) \<Rightarrow> (Inl e, st0)
      | (Inr db, st0) \<Rightarrow>
          (let (r, st1) = ingest_try url env st0;
               st2 = (case r of
                        Inl e \<Rightarrow> st1\<lparr>console := console st1 @ [Error_in_fetchLyricsAndStore e]\<rparr>
                      | Inr u \<Rightarrow> st1)
           in case closeConnection (close_res env) st2 of
                (Inl e, st3) \<Rightarrow> (Inl e, st3)
              | (Inr u, st3) \<Rightarrow> (Inr (), st3)))"

text \<open>
  The script: the locator of line 18, and the call of line 173.
\<close>

definition script_songUrl :: string where
  "script_songUrl =
     ''https://storage.googleapis.com/musikame-files/thefatrat-mayday-feat-laura-brehm-lyriclyrics-videocopyright-free-music.mp3''"

definition script_run :: "world \<Rightarrow> store \<Rightarrow> (js_error + unit) \<times> store" where
  "script_run env st = fetchLyricsAndStore script_songUrl env st"

section \<open>Similarity search\<close>

text \<open>
  \<^verbatim>\<open>similarities.sort((a, b) => b.similarity - a.similarity)\<close>. The language sorts
  stably: \<open>a\<close> goes after \<open>b\<close> exactly when the comparator's value is greater than
  zero, a \<open>NaN\<close> value counting as zero. The model is the stable insertion sort; for a
  comparator that is a consistent ordering every stable sort gives the same array (with
  \<open>NaN\<close> scores the comparator is not consistent, the language leaves the order to
  the implementation, and an engine may order the array otherwise than this model).
  The statements below about the order are for scores without \<open>NaN\<close>.
\<close>

definition compare_scored :: "scored \<Rightarrow> scored \<Rightarrow> jsnum" where
  "compare_scored a b = js_sub (similarity b) (similarity a)"

fun sort_insert :: "('a \<Rightarrow> 'a \<Rightarrow> jsnum) \<Rightarrow> 'a \<Rightarrow> 'a list \<Rightarrow> 'a list" where
  "sort_insert cmp x [] = [x]"
| "sort_insert cmp x (y # ys) =
     (if js_gt (cmp x y) (Num 0) then y # sort_insert cmp x ys else x # y # ys)"

fun js_sort :: "('a \<Rightarrow> 'a \<Rightarrow> jsnum) \<Rightarrow> 'a list \<Rightarrow> 'a list" where
  "js_sort cmp [] = []"
| "js_sort cmp (x # xs) = sort_insert cmp x (js_sort cmp xs)"

text \<open>Lines 139 to 145: score every document, sort, keep the first five.\<close>

definition similarities :: "jsnum list \<Rightarrow> song list \<Rightarrow> scored list" where
  "similarities queryEmbedding docs =
     map (\<lambda>s. \<lparr>songId = doc_id s,
                similarity = cosineSimilarity queryEmbedding (embedding s),
                songData = s\<rparr>) docs"

definition topSongs :: "jsnum list \<Rightarrow> song list \<Rightarrow> scored list" where
  "topSongs queryEmbedding docs =
     take 5 (js_sort compare_scored (similarities queryEmbedding docs))"

text \<open>
  \<^verbatim>\<open>findSimilarSongs\<close>. The query is embedded before the connection is acquired;
  \<^verbatim>\<open>closeConnection\<close> is the last statement before the \<^verbatim>\<open>return\<close> and there is no
  \<^verbatim>\<open>try\<close>. The console line of a song holds its summary and its score (the source
  prints the score with four decimals).
\<close>

definition findSimilarSongs :: "string \<Rightarrow> world \<Rightarrow> store \<Rightarrow> (js_error + scored list) \<times> store" where
  "findSimilarSongs queryText env st =
     (case embedContent env queryText of
        Inl e \<Rightarrow> (Inl e, st)
      | Inr queryEmbedding \<Rightarrow>
          (case connectToDatabase (connect_res env) st of
             (Inl e, st1) \<Rightarrow> (Inl e, st1)
           | (Inr db, st1) \<Rightarrow>
               (case find_res env of
                  Some e \<Rightarrow> (Inl e, st1)
                | None \<Rightarrow>
                    (let top = topSongs queryEmbedding (songs st1);
                         st2 = st1\<lparr>console := console st1 @ Log_top5_header #
                                 map (\<lambda>t. Log_top_song (summary (songData t)) (similarity t)) top\<rparr>
                     in case closeConnection (close_res env) st2 of
                          (Inl e, st3) \<Rightarrow> (Inl e, st3)
                        | (Inr u, st3) \<Rightarrow> (Inr top, st3)))))"

section \<open>The text composer as the specification words it\<close>

text \<open>
  The specification's Text Composer: the single-space join of the summary, then every
  value of the keywords, of the moods and of the themes; an absent mapping contributes
  no element. These definitions follow the specification's words and are compared with
  \<open>combinedText\<close> below.
\<close>

fun single_space_join :: "string list \<Rightarrow> string" where
  "single_space_join [] = []"
| "single_space_join [x] = x"
| "single_space_join (x # y # ys) = x @ '' '' @ single_space_join (y # ys)"

definition mapping_values :: "mapping option \<Rightarrow> string list" where
  "mapping_values m = (case m of None \<Rightarrow> [] | Some kvs \<Rightarrow> map snd kvs)"

definition compose_spec ::
  "string \<Rightarrow> mapping option \<Rightarrow> mapping option \<Rightarrow> mapping option \<Rightarrow> string" where
  "compose_spec s kws moods themes =
     single_space_join (s # mapping_values kws @ mapping_values moods @ mapping_values themes)"

section \<open>Example inputs\<close>

text \<open>
  A response of the analysis service with every field, a world in which every external
  call succeeds, and the empty store. The examples below vary them field by field.
\<close>

definition example_result :: analysis_result where
  "example_result =
     \<lparr>result_summary = Some ''s'', result_language = Some ''en'',
      result_language_iso = Some ''en'', result_explicit = Some False,
      result_keywords = Some [(''0'', ''love'')],
      result_ddex_moods = Some [(''0'', ''calm'')],
      result_ddex_themes = Some [(''0'', ''hope'')], result_flags = None\<rparr>"

definition example_world :: world where
  "example_world =
     \<lparr>connect_res = None, exists_connect_res = None, findOne_res = None, find_res = None,
      fetch_json = (\<lambda>u. Inr example_result),
      embedContent = (\<lambda>t. Inr [Num 1, Num 0]),
      axios_get = (\<lambda>u. Inr [1, 2, 3]),
      upload_res = Inr 7, insert_res = Inr 1, close_res = None, now = 0\<rparr>"

definition empty_store :: store where
  "empty_store = \<lparr>songs = [], songs_audio = [], conn_open = False, releases = 0, console = []\<rparr>"

definition example_song :: song where
  "example_song =
     \<lparr>doc_id = Some 1, songUrl = ''a.mp3'', audioFileId = 7, filename = ''a.mp3'',
      language = Some ''en'', language_iso = Some ''en'', summary = Some ''s'',
      explicit = Some False, song_keywords = [''love''], ddex_moods = [''calm''],
      ddex_themes = [''hope''], flags = None, embedding = [Num 1, Num 0], created_at = 0\<rparr>"

section \<open>Zero vectors\<close>

text \<open>
  A vector all of whose components are zero. Its magnitude is computed without
  rounding in float64 as well: every square and every partial sum is zero.
\<close>

definition all_zero :: "jsnum list \<Rightarrow> bool" where
  "all_zero vec = list_all (\<lambda>x. x = Num 0) vec"

section \<open>Properties of a ranked output\<close>

text \<open>Sorted non-increasing by score, with the comparison \<^verbatim>\<open>>=\<close> of the language.\<close>

definition sorted_desc :: "scored list \<Rightarrow> bool" where
  "sorted_desc out = sorted_wrt (\<lambda>a b. js_ge (similarity a) (similarity b)) out"

section \<open>Text composition\<close>

lemma join_loop_pos:
  "k > 0 \<Longrightarrow> join_loop sep R k xs =
     R @ concat (map (\<lambda>e. sep @ (case e of None \<Rightarrow> [] | Some s \<Rightarrow> s)) xs)"
  by (induction xs arbitrary: R k) simp_all

lemma single_space_join_Cons:
  "single_space_join (x # ys) = x @ concat (map (\<lambda>y. '' '' @ y) ys)"
  by (induction ys arbitrary: x) simp_all

lemma js_join_single_space:
  "js_join '' '' (Some x # map Some ys) = single_space_join (x # ys)"
  by (simp add: js_join_def join_loop_pos comp_def single_space_join_Cons)

lemma values_or_empty: "values_of (or_empty_object m) = mapping_values m"
  by (simp add: values_of_def or_empty_object_def mapping_values_def split: option.splits)

text \<open>
  Claim C2. The composed text is a function of the analysis result alone: it is the
  single-space join of the summary, the values of the keywords, the values of the moods
  and the values of the themes, in this order and in each mapping's enumeration order.
  An absent mapping composes like an empty one, and a result that has only the summary
  \<open>s\<close> composes to \<open>s\<close>.
\<close>

theorem combinedText_is_single_space_join:
  "combinedText (result\<lparr>result_summary := Some s\<rparr>) =
     compose_spec s (result_keywords result) (result_ddex_moods result) (result_ddex_themes result)
   \<and> combinedText (result\<lparr>result_keywords := None\<rparr>) =
       combinedText (result\<lparr>result_keywords := Some []\<rparr>)
   \<and> combinedText (result\<lparr>result_ddex_moods := None\<rparr>) =
       combinedText (result\<lparr>result_ddex_moods := Some []\<rparr>)
   \<and> combinedText (result\<lparr>result_ddex_themes := None\<rparr>) =
       combinedText (result\<lparr>result_ddex_themes := Some []\<rparr>)
   \<and> combinedText (result\<lparr>result_summary := Some s, result_keywords := None,
         result_ddex_moods := None, result_ddex_themes := None\<rparr>) = s"
proof -
  have "combinedText (result\<lparr>result_summary := Some s\<rparr>) =
     compose_spec s (result_keywords result) (result_ddex_moods result) (result_ddex_themes result)"
    unfolding combinedText_def compose_spec_def
    by (simp add: values_or_empty js_join_single_space flip: map_append)
  moreover have "combinedText (result\<lparr>result_summary := Some s, result_keywords := None,
         result_ddex_moods := None, result_ddex_themes := None\<rparr>) = s"
    by (simp add: combinedText_def or_empty_object_def values_of_def js_join_def)
  ultimately show ?thesis
    by (simp add: combinedText_def or_empty_object_def)
qed

section \<open>Ingestion: what reaches the collection\<close>

lemma ingest_try_found:
  "find (\<lambda>s. songUrl s = url) (songs st) \<noteq> None \<Longrightarrow>
     songs (snd (ingest_try url env st)) = songs st"
  by (auto simp add: ingest_try_def songExists_def connectToDatabase_def split: option.splits)

text \<open>
  The block either leaves the collection as it is, or every stage has succeeded and
  exactly the assembled document is appended, after its blob.
\<close>

lemma ingest_try_songs:
  "songs (snd (ingest_try url env st)) = songs st \<or>
   (\<exists>result vec buf fid doc oid.
      exists_connect_res env = None \<and> findOne_res env = None \<and>
      find (\<lambda>s. songUrl s = url) (songs st) = None \<and>
      fetch_json env url = Inr result \<and>
      embedContent env (combinedText result) = Inr vec \<and>
      axios_get env url = Inr buf \<and>
      upload_res env = Inr fid \<and>
      assemble_songData url fid (basename url) result vec (now env) = Inr doc \<and>
      insert_res env = Inr oid \<and>
      fst (ingest_try url env st) = Inr () \<and>
      songs (snd (ingest_try url env st)) = songs st @ [doc\<lparr>doc_id := Some oid\<rparr>] \<and>
      songs_audio (snd (ingest_try url env st)) = songs_audio st @ [(fid, basename url, buf)])"
  by (auto simp add: ingest_try_def songExists_def connectToDatabase_def getSongBuffer_def
        uploadToGridFS_def insertOne_def split: option.splits sum.splits)

lemma fetchLyricsAndStore_songs:
  "songs (snd (fetchLyricsAndStore url env st)) =
     (case connect_res env of
        Some e \<Rightarrow> songs st
      | None \<Rightarrow> songs (snd (ingest_try url env (st\<lparr>conn_open := True\<rparr>))))"
  by (simp add: fetchLyricsAndStore_def connectToDatabase_def closeConnection_def
        split: option.splits sum.splits prod.splits)

lemma fetchLyricsAndStore_songs_audio:
  "songs_audio (snd (fetchLyricsAndStore url env st)) =
     (case connect_res env of
        Some e \<Rightarrow> songs_audio st
      | None \<Rightarrow> songs_audio (snd (ingest_try url env (st\<lparr>conn_open := True\<rparr>))))"
  by (simp add: fetchLyricsAndStore_def connectToDatabase_def closeConnection_def
        split: option.splits sum.splits prod.splits)

lemma assemble_songData_fields:
  "assemble_songData url fid name result vec date = Inr doc \<Longrightarrow>
     songUrl doc = url \<and> audioFileId doc = fid \<and> filename doc = name \<and> embedding doc = vec"
  by (auto simp add: assemble_songData_def split: sum.splits)

text \<open>
  Claim C5. Ingestion aborts on the first error and is atomic in effect. When the
  metadata fetch, the embedding of the composed text, the payload fetch or the blob
  upload fails, the collection is left as it was (the text composition itself cannot
  fail). Conversely, when the collection has changed, every one of these stages has
  succeeded, the uploaded blob is in the blob store, and the collection has grown by
  exactly one document, which refers to that blob.
\<close>

theorem ingestion_is_atomic:
  "(isl (fetch_json env url)
      \<or> (\<exists>result. fetch_json env url = Inr result \<and> isl (embedContent env (combinedText result)))
      \<or> isl (getSongBuffer env url)
      \<or> isl (upload_res env)
    \<longrightarrow> songs (snd (fetchLyricsAndStore url env st)) = songs st)
   \<and> (songs (snd (fetchLyricsAndStore url env st)) \<noteq> songs st
    \<longrightarrow> (\<exists>result vec buf fid doc.
          fetch_json env url = Inr result \<and>
          embedContent env (combinedText result) = Inr vec \<and>
          getSongBuffer env url = Inr buf \<and>
          upload_res env = Inr fid \<and>
          (fid, basename url, buf) \<in> set (songs_audio (snd (fetchLyricsAndStore url env st))) \<and>
          songs (snd (fetchLyricsAndStore url env st)) = songs st @ [doc] \<and>
          songUrl doc = url \<and> audioFileId doc = fid \<and> embedding doc = vec))"
proof (cases "connect_res env")
  case (Some e)
  then show ?thesis by (simp add: fetchLyricsAndStore_songs)
next
  case None
  let ?st0 = "st\<lparr>conn_open := True\<rparr>"
  have s: "songs (snd (fetchLyricsAndStore url env st)) = songs (snd (ingest_try url env ?st0))"
    and a: "songs_audio (snd (fetchLyricsAndStore url env st)) =
            songs_audio (snd (ingest_try url env ?st0))"
    using None by (simp_all add: fetchLyricsAndStore_songs fetchLyricsAndStore_songs_audio)
  from ingest_try_songs [of url env ?st0] show ?thesis
  proof
    assume "songs (snd (ingest_try url env ?st0)) = songs ?st0"
    then show ?thesis
      by (simp add: s)
  next
    assume "\<exists>result vec buf fid doc oid.
      exists_connect_res env = None \<and> findOne_res env = None \<and>
      find (\<lambda>s. songUrl s = url) (songs ?st0) = None \<and>
      fetch_json env url = Inr result \<and>
      embedContent env (combinedText result) = Inr vec \<and>
      axios_get env url = Inr buf \<and>
      upload_res env = Inr fid \<and>
      assemble_songData url fid (basename url) result vec (now env) = Inr doc \<and>
      insert_res env = Inr oid \<and>
      fst (ingest_try url env ?st0) = Inr () \<and>
      songs (snd (ingest_try url env ?st0)) = songs ?st0 @ [doc\<lparr>doc_id := Some oid\<rparr>] \<and>
      songs_audio (snd (ingest_try url env ?st0)) =
        songs_audio ?st0 @ [(fid, basename url, buf)]"
    then obtain result vec buf fid doc oid where
      ok: "fetch_json env url = Inr result" "embedContent env (combinedText result) = Inr vec"
        "axios_get env url = Inr buf" "upload_res env = Inr fid"
      and asm: "assemble_songData url fid (basename url) result vec (now env) = Inr doc"
      and ins: "songs (snd (ingest_try url env ?st0)) = songs ?st0 @ [doc\<lparr>doc_id := Some oid\<rparr>]"
      and blob: "songs_audio (snd (ingest_try url env ?st0)) =
                 songs_audio ?st0 @ [(fid, basename url, buf)]"
      by blast
    from assemble_songData_fields [OF asm]
    have f: "songUrl (doc\<lparr>doc_id := Some oid\<rparr>) = url"
      "audioFileId (doc\<lparr>doc_id := Some oid\<rparr>) = fid"
      "embedding (doc\<lparr>doc_id := Some oid\<rparr>) = vec"
      by simp_all
    have "\<exists>d. songs (snd (fetchLyricsAndStore url env st)) = songs st @ [d] \<and>
          songUrl d = url \<and> audioFileId d = fid \<and> embedding d = vec"
      using f ins s by auto
    moreover have
      "(fid, basename url, buf) \<in> set (songs_audio (snd (fetchLyricsAndStore url env st)))"
      by (simp add: a blob)
    ultimately show ?thesis
      using ok by (auto simp add: getSongBuffer_def)
  qed
qed

text \<open>
  The example world with a failing upload leaves the empty collection empty; the
  example world itself stores one document.
\<close>

theorem ingestion_is_atomic_witness:
  "isl (upload_res (example_world\<lparr>upload_res := Inl (Failure ''upload'')\<rparr>))
   \<and> songs (snd (fetchLyricsAndStore ''a/x.mp3''
         (example_world\<lparr>upload_res := Inl (Failure ''upload'')\<rparr>) empty_store)) = songs empty_store
   \<and> songs (snd (fetchLyricsAndStore ''a/x.mp3'' example_world empty_store)) \<noteq> songs empty_store
   \<and> (\<exists>result vec buf fid doc.
          fetch_json example_world ''a/x.mp3'' = Inr result \<and>
          embedContent example_world (combinedText result) = Inr vec \<and>
          getSongBuffer example_world ''a/x.mp3'' = Inr buf \<and>
          upload_res example_world = Inr fid \<and>
          (fid, basename ''a/x.mp3'', buf) \<in>
             set (songs_audio (snd (fetchLyricsAndStore ''a/x.mp3'' example_world empty_store))) \<and>
          songs (snd (fetchLyricsAndStore ''a/x.mp3'' example_world empty_store)) =
             songs empty_store @ [doc] \<and>
          songUrl doc = ''a/x.mp3'' \<and> audioFileId doc = fid \<and> embedding doc = vec)"
proof -
  have h1: "isl (upload_res (example_world\<lparr>upload_res := Inl (Failure ''upload'')\<rparr>))"
    by simp
  have h2: "songs (snd (fetchLyricsAndStore ''a/x.mp3'' example_world empty_store))
            \<noteq> songs empty_store"
    by (simp add: fetchLyricsAndStore_def ingest_try_def songExists_def connectToDatabase_def
      closeConnection_def getSongBuffer_def uploadToGridFS_def insertOne_def assemble_songData_def
      Object_values_def values_of_def example_world_def example_result_def empty_store_def)
  show ?thesis
    using h1 h2
      ingestion_is_atomic [of "example_world\<lparr>upload_res := Inl (Failure ''upload'')\<rparr>"
        "''a/x.mp3''" empty_store]
      ingestion_is_atomic [of example_world "''a/x.mp3''" empty_store]
    by blast
qed

section \<open>Ingestion: the run in which every stage succeeds, and the skip\<close>


lemma fetchLyricsAndStore_success:
  assumes "connect_res env = None" "exists_connect_res env = None" "findOne_res env = None"
    and "find (\<lambda>s. songUrl s = url) (songs st) = None"
    and "fetch_json env url = Inr result"
    and "result_keywords result = Some kws" "result_ddex_moods result = Some moods"
      "result_ddex_themes result = Some themes"
    and "embedContent env (combinedText result) = Inr vec"
    and "axios_get env url = Inr buf" "upload_res env = Inr fid" "insert_res env = Inr oid"
  shows "songs (snd (fetchLyricsAndStore url env st)) =
     songs st @ [\<lparr>doc_id = Some oid, songUrl = url, audioFileId = fid,
                  filename = basename url, language = result_language result,
                  language_iso = result_language_iso result,
                  summary = result_summary result, explicit = result_explicit result,
                  song_keywords = map snd kws, ddex_moods = map snd moods,
                  ddex_themes = map snd themes, flags = result_flags result,
                  embedding = vec, created_at = now env\<rparr>]"
  using assms
  by (simp add: fetchLyricsAndStore_songs ingest_try_def songExists_def connectToDatabase_def
      getSongBuffer_def uploadToGridFS_def insertOne_def assemble_songData_def
      Object_values_def values_of_def)

lemma fetchLyricsAndStore_skip:
  assumes "find (\<lambda>s. songUrl s = url) (songs st) \<noteq> None"
    and "connect_res env = None" "exists_connect_res env = None" "findOne_res env = None"
      "close_res env = None"
  shows "fetchLyricsAndStore url env st =
     (Inr (), st\<lparr>conn_open := False, releases := Suc (releases st),
                  console := console st @ [Log_song_exists]\<rparr>)"
  using assms
  by (simp add: fetchLyricsAndStore_def ingest_try_def songExists_def connectToDatabase_def
      closeConnection_def)

lemma fetchLyricsAndStore_found:
  "find (\<lambda>s. songUrl s = url) (songs st) \<noteq> None \<Longrightarrow>
     songs (snd (fetchLyricsAndStore url env st)) = songs st"
  by (simp add: fetchLyricsAndStore_songs ingest_try_found split: option.splits)

lemma find_None_filter: "(find P xs = None) = (filter P xs = [])"
  by (induction xs) auto

text \<open>
  Claim C1. Dedup idempotence. Take a store with at most one document for the key and
  a first call in which every external call succeeds and the response carries its
  three mappings. After a second call on the same key, whatever its external calls do,
  the collection holds exactly one document for the key and is the collection the
  first call left. When the second call can reach the database, it finds the document
  by the equality lookup, resolves, logs the skip and leaves the blob store alone.
\<close>

theorem dedup_idempotence:
  assumes "length (filter (\<lambda>s. songUrl s = url) (songs st)) \<le> 1"
    and "connect_res env1 = None" "exists_connect_res env1 = None" "findOne_res env1 = None"
    and "fetch_json env1 url = Inr result"
    and "result_keywords result = Some kws" "result_ddex_moods result = Some moods"
      "result_ddex_themes result = Some themes"
    and "embedContent env1 (combinedText result) = Inr vec"
    and "axios_get env1 url = Inr buf" "upload_res env1 = Inr fid" "insert_res env1 = Inr oid"
  shows "let st1 = snd (fetchLyricsAndStore url env1 st);
             r2 = fetchLyricsAndStore url env2 st1
         in length (filter (\<lambda>s. songUrl s = url) (songs (snd r2))) = 1
            \<and> songs (snd r2) = songs st1
            \<and> (connect_res env2 = None \<and> exists_connect_res env2 = None \<and>
                findOne_res env2 = None \<and> close_res env2 = None
                \<longrightarrow> fst r2 = Inr () \<and> find (\<lambda>s. songUrl s = url) (songs st1) \<noteq> None
                    \<and> songs_audio (snd r2) = songs_audio st1
                    \<and> console (snd r2) = console st1 @ [Log_song_exists])"
proof -
  let ?P = "\<lambda>s. songUrl s = url"
  let ?st1 = "snd (fetchLyricsAndStore url env1 st)"
  have one: "length (filter ?P (songs ?st1)) = 1"
  proof (cases "find ?P (songs st) = None")
    case True
    then have "filter ?P (songs st) = []" by (simp add: find_None_filter)
    then show ?thesis
      using fetchLyricsAndStore_success [OF assms(2-4) True assms(5-12)] by simp
  next
    case False
    then have "filter ?P (songs st) \<noteq> []" by (simp add: find_None_filter)
    then have "length (filter ?P (songs st)) = 1"
      using assms(1) by (cases "filter ?P (songs st)") auto
    then show ?thesis
      using fetchLyricsAndStore_found [OF False] by simp
  qed
  then have found: "find ?P (songs ?st1) \<noteq> None"
    by (auto simp add: find_None_filter)
  have same: "songs (snd (fetchLyricsAndStore url env2 ?st1)) = songs ?st1"
    using found by (rule fetchLyricsAndStore_found)
  show ?thesis
    using one same found fetchLyricsAndStore_skip [OF found, of env2]
    by (auto simp add: Let_def)
qed

text \<open>Two runs of the example world on the empty store.\<close>

theorem dedup_idempotence_witness:
  "length (filter (\<lambda>s. songUrl s = ''a/x.mp3'') (songs empty_store)) \<le> 1
   \<and> connect_res example_world = None \<and> exists_connect_res example_world = None
   \<and> findOne_res example_world = None \<and> close_res example_world = None
   \<and> fetch_json example_world ''a/x.mp3'' = Inr example_result
   \<and> result_keywords example_result = Some [(''0'', ''love'')]
   \<and> result_ddex_moods example_result = Some [(''0'', ''calm'')]
   \<and> result_ddex_themes example_result = Some [(''0'', ''hope'')]
   \<and> embedContent example_world (combinedText example_result) = Inr [Num 1, Num 0]
   \<and> axios_get example_world ''a/x.mp3'' = Inr [1, 2, 3]
   \<and> upload_res example_world = Inr 7 \<and> insert_res example_world = Inr 1
   \<and> length (filter (\<lambda>s. songUrl s = ''a/x.mp3'')
        (songs (snd (fetchLyricsAndStore ''a/x.mp3'' example_world
           (snd (fetchLyricsAndStore ''a/x.mp3'' example_world empty_store)))))) = 1
   \<and> songs (snd (fetchLyricsAndStore ''a/x.mp3'' example_world
           (snd (fetchLyricsAndStore ''a/x.mp3'' example_world empty_store))))
       = songs (snd (fetchLyricsAndStore ''a/x.mp3'' example_world empty_store))
   \<and> fst (fetchLyricsAndStore ''a/x.mp3'' example_world
           (snd (fetchLyricsAndStore ''a/x.mp3'' example_world empty_store))) = Inr ()"
proof -
  have h: "length (filter (\<lambda>s. songUrl s = ''a/x.mp3'') (songs empty_store)) \<le> 1"
    "connect_res example_world = None" "exists_connect_res example_world = None"
    "findOne_res example_world = None"
    "fetch_json example_world ''a/x.mp3'' = Inr example_result"
    "result_keywords example_result = Some [(''0'', ''love'')]"
    "result_ddex_moods example_result = Some [(''0'', ''calm'')]"
    "result_ddex_themes example_result = Some [(''0'', ''hope'')]"
    "embedContent example_world (combinedText example_result) = Inr [Num 1, Num 0]"
    "axios_get example_world ''a/x.mp3'' = Inr [1, 2, 3]"
    "upload_res example_world = Inr 7" "insert_res example_world = Inr 1"
    by (simp_all add: example_world_def example_result_def empty_store_def)
  have c: "close_res example_world = None"
    by (simp add: example_world_def)
  show ?thesis
    using h c dedup_idempotence [OF h, of example_world]
    by (auto simp add: Let_def)
qed

section \<open>Ingestion: which errors are swallowed\<close>

text \<open>
  Claim C10, as stated, fails: the first \<^verbatim>\<open>connectToDatabase\<close> (line 78) stands before
  the \<^verbatim>\<open>try\<close>, so a connection failure rejects the call.
\<close>

theorem ingestion_rejects_counterexample:
  "fst (fetchLyricsAndStore ''a/x.mp3''
         (example_world\<lparr>connect_res := Some (Failure ''connect'')\<rparr>) empty_store)
     = Inl (Failure ''connect'')"
  by (simp add: fetchLyricsAndStore_def connectToDatabase_def example_world_def)

text \<open>
  Claim C10, amended. When the connection is acquired and \<^verbatim>\<open>closeConnection\<close>
  succeeds, the call resolves with no value on every path (success, duplicate skip,
  failure of any stage of the \<^verbatim>\<open>try\<close> block), and an error of the block is logged as
  the last console line. A failure of the first \<^verbatim>\<open>connectToDatabase\<close> rejects the call
  with the store untouched, and a failure of \<^verbatim>\<open>closeConnection\<close> in the \<^verbatim>\<open>finally\<close> clause
  rejects it too.
\<close>

theorem ingestion_swallows_errors_in_try:
  "(connect_res env = None \<and> close_res env = None \<longrightarrow>
      fst (fetchLyricsAndStore url env st) = Inr ()
      \<and> (\<forall>e. fst (ingest_try url env (st\<lparr>conn_open := True\<rparr>)) = Inl e \<longrightarrow>
            console (snd (fetchLyricsAndStore url env st)) =
              console (snd (ingest_try url env (st\<lparr>conn_open := True\<rparr>)))
                @ [Error_in_fetchLyricsAndStore e]))
   \<and> (\<forall>e. connect_res env = Some e \<longrightarrow> fetchLyricsAndStore url env st = (Inl e, st))
   \<and> (\<forall>e. connect_res env = None \<and> close_res env = Some e \<longrightarrow>
          fst (fetchLyricsAndStore url env st) = Inl e)"
  by (auto simp add: fetchLyricsAndStore_def connectToDatabase_def closeConnection_def
      split: prod.splits sum.splits)

text \<open>
  A failing analysis service is logged and swallowed; a failing connection and a
  failing release reject.
\<close>

theorem ingestion_swallows_errors_in_try_witness:
  "connect_res (example_world\<lparr>fetch_json := (\<lambda>u. Inl (Failure ''service''))\<rparr>) = None
   \<and> close_res (example_world\<lparr>fetch_json := (\<lambda>u. Inl (Failure ''service''))\<rparr>) = None
   \<and> fst (ingest_try ''a/x.mp3'' (example_world\<lparr>fetch_json := (\<lambda>u. Inl (Failure ''service''))\<rparr>)
        (empty_store\<lparr>conn_open := True\<rparr>)) = Inl (Failure ''service'')
   \<and> fst (fetchLyricsAndStore ''a/x.mp3''
        (example_world\<lparr>fetch_json := (\<lambda>u. Inl (Failure ''service''))\<rparr>) empty_store) = Inr ()
   \<and> console (snd (fetchLyricsAndStore ''a/x.mp3''
        (example_world\<lparr>fetch_json := (\<lambda>u. Inl (Failure ''service''))\<rparr>) empty_store))
      = [Error_in_fetchLyricsAndStore (Failure ''service'')]
   \<and> connect_res (example_world\<lparr>connect_res := Some (Failure ''connect'')\<rparr>)
        = Some (Failure ''connect'')
   \<and> fetchLyricsAndStore ''a/x.mp3''
        (example_world\<lparr>connect_res := Some (Failure ''connect'')\<rparr>) empty_store
      = (Inl (Failure ''connect''), empty_store)
   \<and> close_res (example_world\<lparr>close_res := Some (Failure ''close'')\<rparr>) = Some (Failure ''close'')
   \<and> fst (fetchLyricsAndStore ''a/x.mp3''
        (example_world\<lparr>close_res := Some (Failure ''close'')\<rparr>) empty_store)
      = Inl (Failure ''close'')"
proof -
  let ?w = "example_world\<lparr>fetch_json := (\<lambda>u. Inl (Failure ''service''))\<rparr>"
  have h: "connect_res ?w = None" "close_res ?w = None"
    by (simp_all add: example_world_def)
  have t: "ingest_try ''a/x.mp3'' ?w (empty_store\<lparr>conn_open := True\<rparr>)
             = (Inl (Failure ''service''), empty_store\<lparr>conn_open := True\<rparr>)"
    by (simp add: ingest_try_def songExists_def connectToDatabase_def example_world_def
        empty_store_def)
  have k: "connect_res (example_world\<lparr>connect_res := Some (Failure ''connect'')\<rparr>)
        = Some (Failure ''connect'')"
     "connect_res (example_world\<lparr>close_res := Some (Failure ''close'')\<rparr>) = None"
     "close_res (example_world\<lparr>close_res := Some (Failure ''close'')\<rparr>) = Some (Failure ''close'')"
    by (simp_all add: example_world_def)
  have e: "console empty_store = []" by (simp add: empty_store_def)
  show ?thesis
    using h t k e
      ingestion_swallows_errors_in_try [of ?w "''a/x.mp3''" empty_store]
      ingestion_swallows_errors_in_try
        [of "example_world\<lparr>connect_res := Some (Failure ''connect'')\<rparr>" "''a/x.mp3''" empty_store]
      ingestion_swallows_errors_in_try
        [of "example_world\<lparr>close_res := Some (Failure ''close'')\<rparr>" "''a/x.mp3''" empty_store]
    by simp
qed

section \<open>Ingestion: a response without an optional mapping\<close>

text \<open>
  Claim C8 at a response without \<^verbatim>\<open>keywords\<close>: the text is composed (the absent
  mapping counts as empty, lines 91 to 93), the blob is uploaded, and then
  \<^verbatim>\<open>Object.values(result.keywords)\<close> (line 112) throws. The error is logged and no
  document is stored.
\<close>

theorem missing_keywords_abort_ingestion:
  "fetchLyricsAndStore ''a/x.mp3''
     (example_world\<lparr>fetch_json := (\<lambda>u. Inr (example_result\<lparr>result_keywords := None\<rparr>))\<rparr>)
     empty_store
   = (Inr (), \<lparr>songs = [], songs_audio = [(7, ''x.mp3'', [1, 2, 3])], conn_open = False,
               releases = 1, console = [Error_in_fetchLyricsAndStore TypeError]\<rparr>)
   \<and> combinedText (example_result\<lparr>result_keywords := None\<rparr>) = ''s calm hope''"
  by (simp add: fetchLyricsAndStore_def ingest_try_def songExists_def connectToDatabase_def
      closeConnection_def getSongBuffer_def uploadToGridFS_def insertOne_def assemble_songData_def
      Object_values_def values_of_def basename_def example_world_def example_result_def
      empty_store_def combinedText_def or_empty_object_def js_join_def)

section \<open>Ingestion: the dimension of the embedding\<close>

text \<open>
  Claim C6, as stated, fails: two songs whose embeddings have two and three components
  are both stored.
\<close>

theorem mixed_dimensions_counterexample:
  "map (\<lambda>s. length (embedding s))
     (songs (snd (fetchLyricsAndStore ''b.mp3''
        (example_world\<lparr>embedContent := (\<lambda>t. Inr [Num 1, Num 0, Num 0]), insert_res := Inr 2\<rparr>)
        (snd (fetchLyricsAndStore ''a.mp3'' example_world empty_store)))))
   = [2, 3]"
  by (simp add: fetchLyricsAndStore_def ingest_try_def songExists_def connectToDatabase_def
      closeConnection_def getSongBuffer_def uploadToGridFS_def insertOne_def assemble_songData_def
      Object_values_def values_of_def example_world_def example_result_def
      empty_store_def)

text \<open>
  Claim C6, amended. The ingestion keeps no dimension and checks none: when every
  external call succeeds for a key that is not stored yet, the vector returned by the
  embedding model is stored as the document's embedding, whatever its length and
  whatever the embeddings already in the collection.
\<close>

theorem embedding_stored_unchecked:
  assumes "connect_res env = None" "exists_connect_res env = None" "findOne_res env = None"
    and "find (\<lambda>s. songUrl s = url) (songs st) = None"
    and "fetch_json env url = Inr result"
    and "result_keywords result = Some kws" "result_ddex_moods result = Some moods"
      "result_ddex_themes result = Some themes"
    and "embedContent env (combinedText result) = Inr vec"
    and "axios_get env url = Inr buf" "upload_res env = Inr fid" "insert_res env = Inr oid"
  shows "\<exists>doc. songs (snd (fetchLyricsAndStore url env st)) = songs st @ [doc]
            \<and> songUrl doc = url \<and> embedding doc = vec"
  using fetchLyricsAndStore_success [OF assms] by simp

text \<open>A vector of three components goes into a collection that holds one of two.\<close>

theorem embedding_stored_unchecked_witness:
  "connect_res (example_world\<lparr>embedContent := (\<lambda>t. Inr [Num 1, Num 0, Num 0])\<rparr>) = None
   \<and> find (\<lambda>s. songUrl s = ''b.mp3'')
        (songs (snd (fetchLyricsAndStore ''a.mp3'' example_world empty_store))) = None
   \<and> map (\<lambda>s. length (embedding s))
        (songs (snd (fetchLyricsAndStore ''a.mp3'' example_world empty_store))) = [2]
   \<and> embedContent (example_world\<lparr>embedContent := (\<lambda>t. Inr [Num 1, Num 0, Num 0])\<rparr>)
        (combinedText example_result) = Inr [Num 1, Num 0, Num 0]
   \<and> (\<exists>doc. songs (snd (fetchLyricsAndStore ''b.mp3''
           (example_world\<lparr>embedContent := (\<lambda>t. Inr [Num 1, Num 0, Num 0])\<rparr>)
           (snd (fetchLyricsAndStore ''a.mp3'' example_world empty_store))))
         = songs (snd (fetchLyricsAndStore ''a.mp3'' example_world empty_store)) @ [doc]
         \<and> songUrl doc = ''b.mp3'' \<and> embedding doc = [Num 1, Num 0, Num 0])"
proof -
  let ?w = "example_world\<lparr>embedContent := (\<lambda>t. Inr [Num 1, Num 0, Num 0])\<rparr>"
  let ?st = "snd (fetchLyricsAndStore ''a.mp3'' example_world empty_store)"
  have st: "songs ?st = [\<lparr>doc_id = Some 1, songUrl = ''a.mp3'', audioFileId = 7,
              filename = ''a.mp3'', language = Some ''en'', language_iso = Some ''en'',
              summary = Some ''s'', explicit = Some False, song_keywords = [''love''],
              ddex_moods = [''calm''], ddex_themes = [''hope''], flags = None,
              embedding = [Num 1, Num 0], created_at = 0\<rparr>]"
    by (simp add: fetchLyricsAndStore_def ingest_try_def songExists_def connectToDatabase_def
      closeConnection_def getSongBuffer_def uploadToGridFS_def insertOne_def assemble_songData_def
      Object_values_def values_of_def basename_def example_world_def example_result_def
      empty_store_def)
  have h: "connect_res ?w = None" "exists_connect_res ?w = None" "findOne_res ?w = None"
    "find (\<lambda>s. songUrl s = ''b.mp3'') (songs ?st) = None"
    "fetch_json ?w ''b.mp3'' = Inr example_result"
    "result_keywords example_result = Some [(''0'', ''love'')]"
    "result_ddex_moods example_result = Some [(''0'', ''calm'')]"
    "result_ddex_themes example_result = Some [(''0'', ''hope'')]"
    "embedContent ?w (combinedText example_result) = Inr [Num 1, Num 0, Num 0]"
    "axios_get ?w ''b.mp3'' = Inr [1, 2, 3]"
    "upload_res ?w = Inr 7" "insert_res ?w = Inr 1"
    by (simp_all add: st) (simp_all add: example_world_def example_result_def)
  show ?thesis
    using h(1,4,9) embedding_stored_unchecked [OF h] by (simp add: st)
qed

section \<open>Arithmetic of the special values\<close>

lemma js_mul_NaN_right [simp]: "js_mul x NaN = NaN"
  by (cases x) simp_all

lemma js_add_NaN_right [simp]: "js_add x NaN = NaN"
  by (cases x) simp_all

lemma js_div_NaN_right [simp]: "js_div x NaN = NaN"
  by (cases x) simp_all

lemma reduce_squares_all_zero:
  "all_zero v \<Longrightarrow> reduce_squares (Num 0) v = Num 0"
  by (induction v) (simp_all add: all_zero_def)

lemma magnitude_all_zero: "all_zero v \<Longrightarrow> magnitude v = Num 0"
  by (simp add: magnitude_def reduce_squares_all_zero)

text \<open>
  With a zero vector on either side every product is \<open>0\<close> or \<open>NaN\<close> (zero times an
  infinity, a \<open>NaN\<close> or a missing component), and so is the dot product.
\<close>

lemma reduce_dot_zero_left:
  "all_zero vecA \<Longrightarrow> acc = Num 0 \<or> acc = NaN \<Longrightarrow>
     reduce_dot vecB acc i vecA = Num 0 \<or> reduce_dot vecB acc i vecA = NaN"
proof (induction vecA arbitrary: acc i)
  case Nil
  then show ?case by simp
next
  case (Cons x xs)
  from Cons.prems(1) have x: "x = Num 0" and xs: "all_zero xs"
    by (simp_all add: all_zero_def)
  have "js_mul (Num 0) (js_index vecB i) = Num 0 \<or> js_mul (Num 0) (js_index vecB i) = NaN"
    by (cases "js_index vecB i") simp_all
  then have "js_add acc (js_mul (Num 0) (js_index vecB i)) = Num 0
      \<or> js_add acc (js_mul (Num 0) (js_index vecB i)) = NaN"
    using Cons.prems(2) by auto
  from Cons.IH [OF xs this] show ?case using x by simp
qed

lemma reduce_dot_zero_right:
  "all_zero vecB \<Longrightarrow> acc = Num 0 \<or> acc = NaN \<Longrightarrow>
     reduce_dot vecB acc i vecA = Num 0 \<or> reduce_dot vecB acc i vecA = NaN"
proof (induction vecA arbitrary: acc i)
  case Nil
  then show ?case by simp
next
  case (Cons x xs)
  have "js_index vecB i = Num 0 \<or> js_index vecB i = NaN"
    using Cons.prems(1) by (simp add: js_index_def all_zero_def list_all_length)
  then have "js_mul x (js_index vecB i) = Num 0 \<or> js_mul x (js_index vecB i) = NaN"
    by (cases x) auto
  then have "js_add acc (js_mul x (js_index vecB i)) = Num 0
      \<or> js_add acc (js_mul x (js_index vecB i)) = NaN"
    using Cons.prems(2) by auto
  from Cons.IH [OF Cons.prems(1) this] show ?case by simp
qed

lemma js_mul_zero_cases:
  "js_mul (Num 0) m = Num 0 \<or> js_mul (Num 0) m = NaN"
  "js_mul m (Num 0) = Num 0 \<or> js_mul m (Num 0) = NaN"
  by (cases m; simp)+

lemma js_div_zero_or_NaN:
  "d = Num 0 \<or> d = NaN \<Longrightarrow> m = Num 0 \<or> m = NaN \<Longrightarrow> js_div d m = NaN"
  by auto

lemma cosine_all_zero:
  assumes "all_zero vecA \<or> all_zero vecB"
  shows "cosineSimilarity vecA vecB = NaN"
  using assms
proof
  assume a: "all_zero vecA"
  from reduce_dot_zero_left [OF a, of "Num 0" vecB 0]
  have d: "reduce_dot vecB (Num 0) 0 vecA = Num 0 \<or> reduce_dot vecB (Num 0) 0 vecA = NaN"
    by simp
  show ?thesis
    unfolding cosineSimilarity_def Let_def magnitude_all_zero [OF a]
    by (rule js_div_zero_or_NaN [OF d js_mul_zero_cases(1)])
next
  assume b: "all_zero vecB"
  from reduce_dot_zero_right [OF b, of "Num 0" 0 vecA]
  have d: "reduce_dot vecB (Num 0) 0 vecA = Num 0 \<or> reduce_dot vecB (Num 0) 0 vecA = NaN"
    by simp
  show ?thesis
    unfolding cosineSimilarity_def Let_def magnitude_all_zero [OF b]
    by (rule js_div_zero_or_NaN [OF d js_mul_zero_cases(2)])
qed

section \<open>The sort\<close>

lemma js_gt_sub:
  "x \<noteq> NaN \<Longrightarrow> y \<noteq> NaN \<Longrightarrow> js_gt (js_sub y x) (Num 0) = js_gt y x"
  by (cases x; cases y) (simp_all add: js_sub_def)

lemma js_gt_sub_self: "\<not> js_gt (js_sub v v) (Num 0)"
  by (cases v) (simp_all add: js_sub_def)

lemma js_gt_imp_ge: "js_gt y x \<Longrightarrow> js_ge y x"
  by (cases x; cases y) simp_all

lemma not_js_gt_ge: "x \<noteq> NaN \<Longrightarrow> y \<noteq> NaN \<Longrightarrow> \<not> js_gt y x \<Longrightarrow> js_ge x y"
  by (cases x; cases y) auto

lemma js_ge_trans: "js_ge x y \<Longrightarrow> js_ge y z \<Longrightarrow> js_ge x z"
  by (cases x; cases y; cases z) auto

lemma set_sort_insert [simp]: "set (sort_insert cmp x ys) = insert x (set ys)"
  by (induction ys) auto

lemma set_js_sort [simp]: "set (js_sort cmp xs) = set xs"
  by (induction xs) auto

lemma length_sort_insert [simp]: "length (sort_insert cmp x ys) = Suc (length ys)"
  by (induction ys) auto

lemma length_js_sort [simp]: "length (js_sort cmp xs) = length xs"
  by (induction xs) auto

lemma sorted_sort_insert:
  assumes "similarity x \<noteq> NaN" "\<forall>y\<in>set ys. similarity y \<noteq> NaN"
    and "sorted_desc ys"
  shows "sorted_desc (sort_insert compare_scored x ys)"
  using assms(2,3)
proof (induction ys)
  case Nil
  then show ?case by (simp add: sorted_desc_def)
next
  case (Cons y ys)
  have ny: "similarity y \<noteq> NaN" using Cons.prems(1) by simp
  show ?case
  proof (cases "js_gt (compare_scored x y) (Num 0)")
    case True
    then have "js_gt (similarity y) (similarity x)"
      using assms(1) ny by (simp add: compare_scored_def js_gt_sub)
    then have "js_ge (similarity y) (similarity x)" by (rule js_gt_imp_ge)
    then show ?thesis
      using True Cons by (auto simp add: sorted_desc_def)
  next
    case False
    then have "\<not> js_gt (similarity y) (similarity x)"
      using assms(1) ny by (simp add: compare_scored_def js_gt_sub)
    then have xy: "js_ge (similarity x) (similarity y)"
      using assms(1) ny by (simp add: not_js_gt_ge)
    then have "\<forall>z\<in>set ys. js_ge (similarity x) (similarity z)"
      using Cons.prems(2) by (auto simp add: sorted_desc_def intro: js_ge_trans)
    then show ?thesis
      using False xy Cons.prems(2) by (simp add: sorted_desc_def)
  qed
qed

lemma sorted_js_sort:
  "\<forall>y\<in>set xs. similarity y \<noteq> NaN \<Longrightarrow> sorted_desc (js_sort compare_scored xs)"
proof (induction xs)
  case Nil
  then show ?case by (simp add: sorted_desc_def)
next
  case (Cons x xs)
  then show ?case by (simp add: sorted_sort_insert)
qed

lemma filter_sort_insert:
  "filter (\<lambda>t. similarity t = v) (sort_insert compare_scored x ys) =
     (if similarity x = v then x # filter (\<lambda>t. similarity t = v) ys
      else filter (\<lambda>t. similarity t = v) ys)"
  by (induction ys) (auto simp add: compare_scored_def js_gt_sub_self)

lemma filter_js_sort:
  "filter (\<lambda>t. similarity t = v) (js_sort compare_scored xs) = filter (\<lambda>t. similarity t = v) xs"
  by (induction xs) (simp_all add: filter_sort_insert)

lemma prefix_filter_take: "prefix (filter P (take n xs)) (filter P xs)"
proof -
  have "filter P xs = filter P (take n xs) @ filter P (drop n xs)"
    by (metis append_take_drop_id filter_append)
  then show ?thesis by (simp add: prefix_def)
qed

section \<open>The search returns the ranked list\<close>

lemma findSimilarSongs_ok:
  "embedContent env qt = Inr q \<Longrightarrow> connect_res env = None \<Longrightarrow> find_res env = None \<Longrightarrow>
   close_res env = None \<Longrightarrow> fst (findSimilarSongs qt env st) = Inr (topSongs q (songs st))"
  by (simp add: findSimilarSongs_def connectToDatabase_def closeConnection_def Let_def)

lemma topSongs_all:
  "length docs \<le> 5 \<Longrightarrow> set (topSongs q docs) = set (similarities q docs)"
  by (simp add: topSongs_def similarities_def)

section \<open>Similarity of a zero vector\<close>

text \<open>
  Claim C3, as stated, fails: the score of the zero vector against \<open>[1, 0]\<close> is not
  \<open>0\<close>, and the ranked list for a zero query holds \<open>NaN\<close>.
\<close>

theorem zero_magnitude_counterexample:
  "magnitude [Num 0, Num 0] = Num 0
   \<and> cosineSimilarity [Num 0, Num 0] [Num 1, Num 0] \<noteq> Num 0
   \<and> map similarity (topSongs [Num 0, Num 0] [example_song]) = [NaN]"
  by (simp add: cosineSimilarity_def magnitude_def js_index_def topSongs_def similarities_def
      example_song_def)

text \<open>
  Claim C3, amended. The code has no policy for a zero magnitude. A vector all of
  whose components are zero has magnitude \<open>0\<close>, and for every pair of vectors of which
  at least one is such a zero vector the score is \<open>0 / 0\<close>, that is \<open>NaN\<close>, whatever
  the other vector holds and whatever its length. The \<open>NaN\<close> is propagated: in a
  search that succeeds over a collection of at most five documents, every document
  whose embedding is a zero vector, and every document when the query is one, is
  returned with the score \<open>NaN\<close>.
\<close>

theorem zero_vector_gives_NaN:
  "(all_zero vec \<longrightarrow> magnitude vec = Num 0)
   \<and> (all_zero vecA \<or> all_zero vecB \<longrightarrow> cosineSimilarity vecA vecB = NaN)
   \<and> (embedContent env qt = Inr q \<and> connect_res env = None \<and> find_res env = None \<and>
      close_res env = None \<and> (all_zero q \<or> all_zero (embedding s)) \<and>
      s \<in> set (songs st) \<and> length (songs st) \<le> 5
      \<longrightarrow> (\<exists>out t. fst (findSimilarSongs qt env st) = Inr out \<and> t \<in> set out \<and>
             songData t = s \<and> similarity t = NaN))"
proof -
  have "\<exists>out t. fst (findSimilarSongs qt env st) = Inr out \<and> t \<in> set out \<and>
             songData t = s \<and> similarity t = NaN"
    if ok: "embedContent env qt = Inr q" "connect_res env = None" "find_res env = None"
      "close_res env = None"
      and z: "all_zero q \<or> all_zero (embedding s)"
      and s: "s \<in> set (songs st)" "length (songs st) \<le> 5"
  proof -
    let ?t = "\<lparr>songId = doc_id s, similarity = cosineSimilarity q (embedding s), songData = s\<rparr>"
    have "?t \<in> set (topSongs q (songs st))"
      using s by (auto simp add: topSongs_all similarities_def)
    moreover have "similarity ?t = NaN"
      using cosine_all_zero [OF z] by simp
    ultimately show ?thesis
      using findSimilarSongs_ok [OF ok]
      by (intro exI [of _ "topSongs q (songs st)"] exI [of _ ?t]) simp
  qed
  then show ?thesis
    using cosine_all_zero magnitude_all_zero by blast
qed

text \<open>The zero query against the example song.\<close>

theorem zero_vector_gives_NaN_witness:
  "all_zero [Num 0, Num 0]
   \<and> magnitude [Num 0, Num 0] = Num 0
   \<and> cosineSimilarity [Num 0, Num 0] [Num 1, Num 0] = NaN
   \<and> embedContent (example_world\<lparr>embedContent := (\<lambda>t. Inr [Num 0, Num 0])\<rparr>) ''q''
       = Inr [Num 0, Num 0]
   \<and> example_song \<in> set (songs (empty_store\<lparr>songs := [example_song]\<rparr>))
   \<and> length (songs (empty_store\<lparr>songs := [example_song]\<rparr>)) \<le> 5
   \<and> (\<exists>out t. fst (findSimilarSongs ''q''
                      (example_world\<lparr>embedContent := (\<lambda>t. Inr [Num 0, Num 0])\<rparr>)
                      (empty_store\<lparr>songs := [example_song]\<rparr>)) = Inr out
         \<and> t \<in> set out \<and> songData t = example_song \<and> similarity t = NaN)"
proof -
  let ?w = "example_world\<lparr>embedContent := (\<lambda>t. Inr [Num 0, Num 0])\<rparr>"
  let ?st = "empty_store\<lparr>songs := [example_song]\<rparr>"
  have z: "all_zero [Num 0, Num 0]"
    by (simp add: all_zero_def)
  have h: "embedContent ?w ''q'' = Inr [Num 0, Num 0]" "connect_res ?w = None"
    "find_res ?w = None" "close_res ?w = None" "example_song \<in> set (songs ?st)"
    "length (songs ?st) \<le> 5"
    by (simp_all add: example_world_def)
  show ?thesis
    using z h
      zero_vector_gives_NaN [of "[Num 0, Num 0]" "[Num 0, Num 0]" "[Num 1, Num 0]" ?w "''q''"
        "[Num 0, Num 0]" example_song ?st]
    by simp
qed

section \<open>The ranked output\<close>

text \<open>
  Claim C4, as stated, fails. The code has no parameter \<open>k\<close>: for \<open>k = 0\<close> the claim
  wants an empty output, and the output for one document has one entry. And a score
  \<open>NaN\<close> is in no order with the other scores.
\<close>

theorem ranked_output_counterexample:
  "length (topSongs [Num 1, Num 0] [example_song]) \<noteq> min 0 (length [example_song])
   \<and> \<not> sorted_desc (topSongs [Num 1, Num 0]
          [example_song\<lparr>embedding := [Num 0, Num 0]\<rparr>, example_song])"
  by (simp add: cosineSimilarity_def magnitude_def js_index_def topSongs_def similarities_def
      example_song_def sorted_desc_def compare_scored_def js_sub_def)

text \<open>
  Claim C4, amended. For every query embedding and corpus the ranked output has length
  \<open>min 5 |corpus|\<close>: the cut is the constant five. When no score is \<open>NaN\<close>, the output
  is sorted non-increasing by score, and the entries of any one score are, in corpus
  order, the first such entries of the corpus (ties keep corpus order, and the cut
  keeps the earliest).
\<close>

theorem ranked_output_top5:
  "length (topSongs q docs) = min 5 (length docs)
   \<and> ((\<forall>s\<in>set docs. cosineSimilarity q (embedding s) \<noteq> NaN) \<longrightarrow>
        sorted_desc (topSongs q docs)
        \<and> (\<forall>v. prefix (filter (\<lambda>t. similarity t = v) (topSongs q docs))
                       (filter (\<lambda>t. similarity t = v) (similarities q docs))))"
proof -
  have len: "length (topSongs q docs) = min 5 (length docs)"
    by (simp add: topSongs_def similarities_def min.commute)
  have st: "prefix (filter (\<lambda>t. similarity t = v) (topSongs q docs))
                   (filter (\<lambda>t. similarity t = v) (similarities q docs))" for v
    using prefix_filter_take [of "\<lambda>t. similarity t = v" 5 "js_sort compare_scored (similarities q docs)"]
    by (simp add: topSongs_def filter_js_sort)
  have "sorted_desc (topSongs q docs)"
    if "\<forall>s\<in>set docs. cosineSimilarity q (embedding s) \<noteq> NaN"
  proof -
    from that have "\<forall>y\<in>set (similarities q docs). similarity y \<noteq> NaN"
      by (auto simp add: similarities_def)
    from sorted_js_sort [OF this] show ?thesis
      unfolding topSongs_def sorted_desc_def by (rule sorted_wrt_take)
  qed
  with len st show ?thesis by blast
qed

text \<open>Three documents with the scores 0, 1 and 1.\<close>

theorem ranked_output_top5_witness:
  "cosineSimilarity [Num 1, Num 0] [Num 0, Num 1] \<noteq> NaN
   \<and> cosineSimilarity [Num 1, Num 0] [Num 1, Num 0] \<noteq> NaN
   \<and> cosineSimilarity [Num 1, Num 0] [Num 2, Num 0] \<noteq> NaN
   \<and> length (topSongs [Num 1, Num 0]
        [example_song\<lparr>embedding := [Num 0, Num 1]\<rparr>, example_song,
         example_song\<lparr>doc_id := Some 2, embedding := [Num 2, Num 0]\<rparr>]) = 3
   \<and> sorted_desc (topSongs [Num 1, Num 0]
        [example_song\<lparr>embedding := [Num 0, Num 1]\<rparr>, example_song,
         example_song\<lparr>doc_id := Some 2, embedding := [Num 2, Num 0]\<rparr>])
   \<and> prefix (filter (\<lambda>t. similarity t = Num 1) (topSongs [Num 1, Num 0]
        [example_song\<lparr>embedding := [Num 0, Num 1]\<rparr>, example_song,
         example_song\<lparr>doc_id := Some 2, embedding := [Num 2, Num 0]\<rparr>]))
       (filter (\<lambda>t. similarity t = Num 1) (similarities [Num 1, Num 0]
        [example_song\<lparr>embedding := [Num 0, Num 1]\<rparr>, example_song,
         example_song\<lparr>doc_id := Some 2, embedding := [Num 2, Num 0]\<rparr>]))"
proof -
  let ?docs = "[example_song\<lparr>embedding := [Num 0, Num 1]\<rparr>, example_song,
         example_song\<lparr>doc_id := Some 2, embedding := [Num 2, Num 0]\<rparr>]"
  have h: "cosineSimilarity [Num 1, Num 0] [Num 0, Num 1] \<noteq> NaN"
    "cosineSimilarity [Num 1, Num 0] [Num 1, Num 0] \<noteq> NaN"
    "cosineSimilarity [Num 1, Num 0] [Num 2, Num 0] \<noteq> NaN"
    by (simp_all add: cosineSimilarity_def magnitude_def js_index_def)
  have e: "embedding example_song = [Num 1, Num 0]"
    by (simp add: example_song_def)
  show ?thesis
    using h e ranked_output_top5 [of "[Num 1, Num 0]" ?docs]
    by simp
qed

section \<open>Vectors of unequal length\<close>

lemma reduce_dot_NaN [simp]: "reduce_dot vecB NaN i xs = NaN"
  by (induction xs arbitrary: i) simp_all

lemma reduce_dot_short:
  "i \<le> length vecB \<Longrightarrow> length vecB < i + length xs \<Longrightarrow> reduce_dot vecB acc i xs = NaN"
proof (induction xs arbitrary: acc i)
  case Nil
  then show ?case by simp
next
  case (Cons x xs)
  show ?case
  proof (cases "i = length vecB")
    case True
    then show ?thesis by (simp add: js_index_def)
  next
    case False
    with Cons.prems have "Suc i \<le> length vecB" "length vecB < Suc i + length xs"
      by simp_all
    from Cons.IH [OF this] show ?thesis by simp
  qed
qed

lemma reduce_dot_take:
  "i + length xs \<le> n \<Longrightarrow> reduce_dot (take n vecB) acc i xs = reduce_dot vecB acc i xs"
proof (induction xs arbitrary: acc i)
  case Nil
  then show ?case by simp
next
  case (Cons x xs)
  then have "js_index (take n vecB) i = js_index vecB i"
    by (simp add: js_index_def)
  with Cons show ?case by simp
qed

text \<open>
  Claim C7, as stated, fails: the search over a document whose embedding has two
  components, with a query of one component, resolves, with the score 1.
\<close>

theorem unequal_lengths_counterexample:
  "length [Num 1] \<noteq> length (embedding example_song)
   \<and> fst (findSimilarSongs ''q'' (example_world\<lparr>embedContent := (\<lambda>t. Inr [Num 1])\<rparr>)
        (empty_store\<lparr>songs := [example_song]\<rparr>))
     = Inr [\<lparr>songId = Some 1, similarity = Num 1, songData = example_song\<rparr>]"
  by (simp add: findSimilarSongs_def connectToDatabase_def closeConnection_def topSongs_def
      similarities_def cosineSimilarity_def magnitude_def js_index_def example_world_def
      example_song_def)

text \<open>
  Claim C7, amended. Scoring two vectors of unequal length raises no error. When the
  stored vector is shorter than the query, the score is \<open>NaN\<close>. When it is at least as
  long, the dot product reads only its first \<open>|query|\<close> components, while its
  magnitude is taken over all of them. A search whose external calls succeed resolves
  with the ranked list, whatever the lengths of the stored embeddings.
\<close>

theorem unequal_lengths_raise_no_error:
  "(length vecB < length vecA \<longrightarrow> cosineSimilarity vecA vecB = NaN)
   \<and> (length vecA \<le> length vecB \<longrightarrow>
        cosineSimilarity vecA vecB =
          js_div (reduce_dot (take (length vecA) vecB) (Num 0) 0 vecA)
                 (js_mul (magnitude vecA) (magnitude vecB)))
   \<and> (embedContent env qt = Inr q \<and> connect_res env = None \<and> find_res env = None \<and>
      close_res env = None
      \<longrightarrow> fst (findSimilarSongs qt env st) = Inr (topSongs q (songs st)))"
  by (simp add: cosineSimilarity_def reduce_dot_short reduce_dot_take findSimilarSongs_ok)

text \<open>A query of one component and a stored vector of two, and the converse.\<close>

theorem unequal_lengths_raise_no_error_witness:
  "length [Num 1] < length [Num 1, Num 0]
   \<and> cosineSimilarity [Num 1, Num 0] [Num 1] = NaN
   \<and> length [Num 1] \<le> length [Num 1, Num 0]
   \<and> cosineSimilarity [Num 1] [Num 1, Num 0] =
       js_div (reduce_dot (take (length [Num 1]) [Num 1, Num 0]) (Num 0) 0 [Num 1])
              (js_mul (magnitude [Num 1]) (magnitude [Num 1, Num 0]))
   \<and> embedContent (example_world\<lparr>embedContent := (\<lambda>t. Inr [Num 1])\<rparr>) ''q'' = Inr [Num 1]
   \<and> fst (findSimilarSongs ''q'' (example_world\<lparr>embedContent := (\<lambda>t. Inr [Num 1])\<rparr>)
        (empty_store\<lparr>songs := [example_song]\<rparr>))
     = Inr (topSongs [Num 1] (songs (empty_store\<lparr>songs := [example_song]\<rparr>)))"
proof -
  let ?w = "example_world\<lparr>embedContent := (\<lambda>t. Inr [Num 1])\<rparr>"
  have h: "embedContent ?w ''q'' = Inr [Num 1]" "connect_res ?w = None"
    "find_res ?w = None" "close_res ?w = None"
    by (simp_all add: example_world_def)
  have l: "length [Num 1] < length [Num 1, Num 0]" "length [Num 1] \<le> length [Num 1, Num 0]"
    by simp_all
  show ?thesis
    using h l
      unequal_lengths_raise_no_error [of "[Num 1]" "[Num 1, Num 0]" ?w "''q''" "[Num 1]"
        "empty_store\<lparr>songs := [example_song]\<rparr>"]
      unequal_lengths_raise_no_error [of "[Num 1, Num 0]" "[Num 1]"]
    by simp
qed

section \<open>Release of the storage connection\<close>

text \<open>
  The ingestion releases the connection once on every path behind the acquisition (the
  \<^verbatim>\<open>finally\<close> clause), and so does a search that succeeds.
\<close>

lemma ingest_try_releases:
  "releases (snd (ingest_try url env st)) = releases st"
  by (simp add: ingest_try_def songExists_def connectToDatabase_def getSongBuffer_def
        uploadToGridFS_def insertOne_def split: option.splits sum.splits)

lemma fetchLyricsAndStore_releases_once:
  "connect_res env = None \<Longrightarrow> close_res env = None \<Longrightarrow>
     releases (snd (fetchLyricsAndStore url env st)) = Suc (releases st)
     \<and> \<not> conn_open (snd (fetchLyricsAndStore url env st))"
  using ingest_try_releases [of url env "st\<lparr>conn_open := True\<rparr>"]
  by (auto simp add: fetchLyricsAndStore_def connectToDatabase_def closeConnection_def
        split: prod.splits sum.splits)

lemma findSimilarSongs_releases_on_success:
  "embedContent env qt = Inr q \<Longrightarrow> connect_res env = None \<Longrightarrow> find_res env = None \<Longrightarrow>
   close_res env = None \<Longrightarrow>
     releases (snd (findSimilarSongs qt env st)) = Suc (releases st)
     \<and> \<not> conn_open (snd (findSimilarSongs qt env st))"
  by (simp add: findSimilarSongs_def connectToDatabase_def closeConnection_def Let_def)

text \<open>
  Claim C9 at a search whose query \<^verbatim>\<open>find({}).toArray()\<close> rejects: the rejection leaves
  \<^verbatim>\<open>findSimilarSongs\<close> before \<^verbatim>\<open>closeConnection\<close> (line 152), the connection stays open
  and is released zero times.
\<close>

theorem search_leaks_connection_on_error:
  "findSimilarSongs ''q'' (example_world\<lparr>find_res := Some (Failure ''find'')\<rparr>) empty_store
   = (Inl (Failure ''find''),
      \<lparr>songs = [], songs_audio = [], conn_open = True, releases = 0, console = []\<rparr>)"
  by (simp add: findSimilarSongs_def connectToDatabase_def example_world_def empty_store_def)

end
